theory Spec2Isabelle
  imports Complex_Main
begin

section \<open>Python values\<close>

text \<open>
  A Python \<open>str\<close> is a sequence of Unicode code points, so it is a list of naturals here
  (an Isabelle \<open>char\<close> is one byte only).  \<open>ascii\<close> turns an ASCII literal of the source
  into that representation.
\<close>

type_synonym pystr = "nat list"

definition ascii :: "string \<Rightarrow> pystr" where
  "ascii s = map of_char s"

text \<open>
  The payloads of both APIs are decoded JSON documents.  Numbers are the integers the
  scripts read (identifiers, page counters); a dict is an association list read with
  \<open>map_of\<close>.
\<close>

datatype json =
    JNull
  | JBool bool
  | JInt int
  | JStr pystr
  | JArr "json list"
  | JObj "(pystr \<times> json) list"

text \<open>The exceptions of the scripts that no handler of theirs catches.\<close>

datatype exn =
    SystemExit int
  | AttributeError
  | TypeError
  | ValueError
  | ZeroDivisionError
  | RecursionError

text \<open>Truth value of a Python object, as \<open>if x\<close>, \<open>not x\<close> and \<open>x or y\<close> test it.\<close>

fun truthy :: "json \<Rightarrow> bool" where
  "truthy JNull = False"
| "truthy (JBool b) = b"
| "truthy (JInt n) = (n \<noteq> 0)"
| "truthy (JStr s) = (s \<noteq> [])"
| "truthy (JArr xs) = (xs \<noteq> [])"
| "truthy (JObj kvs) = (kvs \<noteq> [])"


text \<open>\<open>d.get(k)\<close> and \<open>d.get(k, default)\<close> on a dict.\<close>

definition dict_get :: "(pystr \<times> json) list \<Rightarrow> pystr \<Rightarrow> json" where
  "dict_get d k = (case map_of d k of None \<Rightarrow> JNull | Some v \<Rightarrow> v)"

definition dict_get_default :: "(pystr \<times> json) list \<Rightarrow> pystr \<Rightarrow> json \<Rightarrow> json" where
  "dict_get_default d k dflt = (case map_of d k of None \<Rightarrow> dflt | Some v \<Rightarrow> v)"

text \<open>
  Case mapping of ASCII letters, used where a string is known to hold ASCII only and for
  concrete runs.  The case mapping of the whole of Unicode is a table of the Python
  runtime; functions that apply \<open>str.upper\<close> or \<open>str.lower\<close> to arbitrary text take it
  as a parameter.
\<close>

definition ascii_lower :: "nat \<Rightarrow> nat" where
  "ascii_lower c = (if 65 \<le> c \<and> c \<le> 90 then c + 32 else c)"




section \<open>qard\_bulk\_download.py: choosing the files to download\<close>






















section \<open>qard\_bulk\_download.py: the paginator\<close>

















section \<open>main\_pdf\_2.py and main\_pdf.py: normalisation and the document filter\<close>

text \<open>
  \<open>unicodedata.normalize('NFKD', text).encode('ascii', 'ignore').decode().lower()\<close>.
  NFKD replaces every code point by its full compatibility decomposition and then sorts
  runs of combining marks; \<open>decomp\<close> is that decomposition table of the Unicode database.
  Combining marks are not ASCII, so the sorting does not show in what
  \<open>encode('ascii', 'ignore')\<close> keeps, the code points below 128.  What is left is ASCII, on
  which \<open>lower\<close> maps \<open>A\<close>..\<open>Z\<close> to \<open>a\<close>..\<open>z\<close>.  The function is \<open>normalize\<close> in the
  scripts; HOL has a constant of that name.
\<close>

definition normalize_str :: "(nat \<Rightarrow> nat list) \<Rightarrow> pystr \<Rightarrow> pystr" where
  "normalize_str decomp text = map ascii_lower (filter (\<lambda>c. c < 128) (concat (map decomp text)))"

text \<open>
  \<open>normalize(x)\<close> on a decoded JSON value: \<open>text or ""\<close> turns every falsy value into the
  empty string, and \<open>unicodedata.normalize\<close> accepts a \<open>str\<close> only.
\<close>

fun py_normalize :: "(nat \<Rightarrow> nat list) \<Rightarrow> json \<Rightarrow> exn + pystr" where
  "py_normalize decomp (JStr s) = Inr (normalize_str decomp s)"
| "py_normalize decomp v = (if truthy v then Inl TypeError else Inr (normalize_str decomp []))"

text \<open>The part of the decomposition table that French text needs, for concrete runs.\<close>

definition latin_decomp :: "nat \<Rightarrow> nat list" where
  "latin_decomp c =
     (case map_of
        [(192, [65, 768]), (194, [65, 770]), (199, [67, 807]), (200, [69, 768]), (201, [69, 769]),
         (202, [69, 770]), (203, [69, 776]), (206, [73, 770]), (207, [73, 776]), (212, [79, 770]),
         (217, [85, 768]), (219, [85, 770]), (224, [97, 768]), (226, [97, 770]), (231, [99, 807]),
         (232, [101, 768]), (233, [101, 769]), (234, [101, 770]), (235, [101, 776]), (238, [105, 770]),
         (239, [105, 776]), (244, [111, 770]), (249, [117, 768]), (251, [117, 770]), (160, [32])] c of
        None \<Rightarrow> [c]
      | Some xs \<Rightarrow> xs)"

definition allowed_types :: "pystr list" where
  "allowed_types =
     [ascii ''statuts constitutifs'', ascii ''attestation de depot des fonds'', ascii ''attestation bancaire'']"

text \<open>\<open>sub in s\<close> on strings: \<open>sub\<close> occurs in \<open>s\<close> as a contiguous run.\<close>

fun starts_with :: "'a list \<Rightarrow> 'a list \<Rightarrow> bool" where
  "starts_with s [] = True"
| "starts_with [] (p # ps) = False"
| "starts_with (c # cs) (p # ps) = (c = p \<and> starts_with cs ps)"

fun py_in :: "'a list \<Rightarrow> 'a list \<Rightarrow> bool" where
  "py_in sub [] = (sub = [])"
| "py_in sub (c # cs) = (starts_with (c # cs) sub \<or> py_in sub cs)"

text \<open>
  \<open>for x in v\<close> on a decoded JSON value: a list gives its elements, a string its
  characters, a dict its keys; nothing else can be iterated.
\<close>

fun py_iter :: "json \<Rightarrow> exn + json list" where
  "py_iter (JArr xs) = Inr xs"
| "py_iter (JStr s) = Inr (map (\<lambda>c. JStr [c]) s)"
| "py_iter (JObj d) = Inr (map (\<lambda>kv. JStr (fst kv)) d)"
| "py_iter _ = Inl TypeError"

text \<open>\<open>[normalize(t.get("typeActe", "")) for t in type_rdd_list]\<close>\<close>

fun acte_types :: "(nat \<Rightarrow> nat list) \<Rightarrow> json list \<Rightarrow> exn + pystr list" where
  "acte_types decomp [] = Inr []"
| "acte_types decomp (t # ts) =
     (case t of
        JObj d \<Rightarrow>
          (case py_normalize decomp (dict_get_default d (ascii ''typeActe'') (JStr [])) of
             Inl e \<Rightarrow> Inl e
           | Inr n \<Rightarrow> (case acte_types decomp ts of Inl e \<Rightarrow> Inl e | Inr ns \<Rightarrow> Inr (n # ns)))
      | _ \<Rightarrow> Inl AttributeError)"

text \<open>\<open>any(any(allowed in acte_type for allowed in allowed_types) for acte_type in acte_types)\<close>\<close>

definition any_allowed :: "pystr list \<Rightarrow> bool" where
  "any_allowed types = list_ex (\<lambda>acte_type. list_ex (\<lambda>allowed. py_in allowed acte_type) allowed_types) types"

text \<open>The type test both filters share: the last three lines of the loop body.\<close>

definition type_match :: "(nat \<Rightarrow> nat list) \<Rightarrow> (pystr \<times> json) list \<Rightarrow> exn + bool" where
  "type_match decomp acte =
     (case py_iter (dict_get_default acte (ascii ''typeRdd'') (JArr [])) of
        Inl e \<Rightarrow> Inl e
      | Inr type_rdd_list \<Rightarrow>
          (case acte_types decomp type_rdd_list of
             Inl e \<Rightarrow> Inl e
           | Inr types \<Rightarrow> Inr (any_allowed types)))"

text \<open>
  The body of the loop of \<open>filter_actes\<close> in main\_pdf\_2.py, as the decision to append the
  acte.  \<open>lower\<close> is \<open>str.lower\<close> of the Python runtime, here applied to arbitrary text.
\<close>

fun keep_acte :: "(pystr \<Rightarrow> pystr) \<Rightarrow> (nat \<Rightarrow> nat list) \<Rightarrow> json \<Rightarrow> exn + bool" where
  "keep_acte lower decomp (JObj acte) =
     (if dict_get acte (ascii ''deleted'') = JBool True then Inr False
      else if (case dict_get acte (ascii ''confidentiality'') of
                 JStr conf \<Rightarrow> lower conf \<noteq> ascii ''public''
               | _ \<Rightarrow> False)
      then Inr False
      else type_match decomp acte)"
| "keep_acte lower decomp _ = Inl AttributeError"

text \<open>The same in main\_pdf.py (and main\_pdf\_json.py): the type test only.\<close>

fun keep_acte_v1 :: "(nat \<Rightarrow> nat list) \<Rightarrow> json \<Rightarrow> exn + bool" where
  "keep_acte_v1 decomp (JObj acte) = type_match decomp acte"
| "keep_acte_v1 decomp _ = Inl AttributeError"

text \<open>The loop over the actes, \<open>filtered\<close> being the list built so far.\<close>

fun filter_loop :: "(json \<Rightarrow> exn + bool) \<Rightarrow> json list \<Rightarrow> json list \<Rightarrow> exn + json list" where
  "filter_loop keep [] filtered = Inr filtered"
| "filter_loop keep (acte # actes) filtered =
     (case keep acte of
        Inl e \<Rightarrow> Inl e
      | Inr k \<Rightarrow> filter_loop keep actes (if k then filtered @ [acte] else filtered))"

fun filter_actes :: "(pystr \<Rightarrow> pystr) \<Rightarrow> (nat \<Rightarrow> nat list) \<Rightarrow> json \<Rightarrow> exn + json list" where
  "filter_actes lower decomp (JObj attachments_json) =
     (case py_iter (dict_get_default attachments_json (ascii ''actes'') (JArr [])) of
        Inl e \<Rightarrow> Inl e
      | Inr actes \<Rightarrow> filter_loop (keep_acte lower decomp) actes [])"
| "filter_actes lower decomp _ = Inl AttributeError"

fun filter_actes_v1 :: "(nat \<Rightarrow> nat list) \<Rightarrow> json \<Rightarrow> exn + json list" where
  "filter_actes_v1 decomp (JObj attachments_json) =
     (case py_iter (dict_get_default attachments_json (ascii ''actes'') (JArr [])) of
        Inl e \<Rightarrow> Inl e
      | Inr actes \<Rightarrow> filter_loop (keep_acte_v1 decomp) actes [])"
| "filter_actes_v1 decomp _ = Inl AttributeError"

text \<open>Document descriptors for concrete runs: an id, one type label, and further fields.\<close>

definition acte_with :: "int \<Rightarrow> pystr \<Rightarrow> (pystr \<times> json) list \<Rightarrow> json" where
  "acte_with i label more =
     JObj ([(ascii ''id'', JInt i), (ascii ''typeRdd'', JArr [JObj [(ascii ''typeActe'', JStr label)]])] @ more)"

definition attachments :: "json list \<Rightarrow> json" where
  "attachments actes = JObj [(ascii ''actes'', JArr actes)]"

subsection \<open>Properties of the helpers\<close>



lemma filter_loop_spec:
  "filter_loop keep actes filtered = Inr res \<Longrightarrow>
   res = filtered @ filter (\<lambda>acte. keep acte = Inr True) actes"
proof (induction actes arbitrary: filtered)
  case Nil
  then show ?case by simp
next
  case (Cons acte actes)
  show ?case
  proof (cases "keep acte")
    case (Inl e)
    with Cons.prems show ?thesis by simp
  next
    case (Inr k)
    with Cons.prems have "filter_loop keep actes (if k then filtered @ [acte] else filtered) = Inr res"
      by simp
    from Cons.IH [OF this] Inr show ?thesis by auto
  qed
qed




subsection \<open>What the filters keep\<close>




lemma keep_acte_True:
  assumes "keep_acte lower decomp acte = Inr True"
  obtains a where "acte = JObj a" "dict_get a (ascii ''deleted'') \<noteq> JBool True"
    "\<And>conf. dict_get a (ascii ''confidentiality'') = JStr conf \<Longrightarrow> lower conf = ascii ''public''"
    "type_match decomp a = Inr True"
proof (cases acte)
  case (JObj a)
  with assms have "dict_get a (ascii ''deleted'') \<noteq> JBool True"
    and "\<And>conf. dict_get a (ascii ''confidentiality'') = JStr conf \<Longrightarrow> lower conf = ascii ''public''"
    and "type_match decomp a = Inr True"
    by (auto split: if_splits json.splits)
  with JObj that show ?thesis by blast
qed (use assms in simp_all)






subsection \<open>Deleted and confidential actes\<close>

lemma filter_actes_kept:
  assumes "filter_actes lower decomp att = Inr res" and "acte \<in> set res"
  shows "keep_acte lower decomp acte = Inr True"
proof (cases att)
  case (JObj d)
  show ?thesis
  proof (cases "py_iter (dict_get_default d (ascii ''actes'') (JArr []))")
    case (Inl e)
    with JObj assms show ?thesis by simp
  next
    case (Inr actes)
    with JObj assms(1) have "filter_loop (keep_acte lower decomp) actes [] = Inr res" by simp
    from filter_loop_spec [OF this] assms(2) show ?thesis by simp
  qed
qed (use assms in simp_all)

text \<open>
  C6 (as amended).  In main\_pdf\_2.py an acte whose \<open>deleted\<close> field is \<open>true\<close> is never
  kept, and neither is an acte whose \<open>confidentiality\<close> is a string that, lower-cased, is
  not \<open>public\<close>; so no acte of the result of \<open>filter_actes\<close> is deleted, and the
  confidentiality of each, when it is a string, is \<open>public\<close> in some capitalisation.
\<close>

theorem filter_actes_excludes:
  "(filter_actes lower decomp att = Inr res \<and> acte \<in> set res \<longrightarrow>
      (\<exists>a. acte = JObj a \<and> dict_get a (ascii ''deleted'') \<noteq> JBool True \<and>
           (\<forall>conf. dict_get a (ascii ''confidentiality'') = JStr conf \<longrightarrow> lower conf = ascii ''public''))) \<and>
   (dict_get d (ascii ''deleted'') = JBool True \<longrightarrow> keep_acte lower decomp (JObj d) = Inr False) \<and>
   (dict_get d (ascii ''confidentiality'') = JStr c \<and> lower c \<noteq> ascii ''public'' \<longrightarrow>
      keep_acte lower decomp (JObj d) = Inr False)"
proof (intro conjI impI)
  assume "filter_actes lower decomp att = Inr res \<and> acte \<in> set res"
  then have "keep_acte lower decomp acte = Inr True"
    using filter_actes_kept by blast
  then show "\<exists>a. acte = JObj a \<and> dict_get a (ascii ''deleted'') \<noteq> JBool True \<and>
           (\<forall>conf. dict_get a (ascii ''confidentiality'') = JStr conf \<longrightarrow> lower conf = ascii ''public'')"
    by (rule keep_acte_True) blast
next
  assume "dict_get d (ascii ''deleted'') = JBool True"
  then show "keep_acte lower decomp (JObj d) = Inr False" by simp
next
  assume "dict_get d (ascii ''confidentiality'') = JStr c \<and> lower c \<noteq> ascii ''public''"
  then show "keep_acte lower decomp (JObj d) = Inr False" by simp
qed

lemma example_exclusions:
  "filter_actes (map ascii_lower) latin_decomp
     (attachments
        [acte_with 1 (ascii ''attestation bancaire'') [(ascii ''deleted'', JBool True)],
         acte_with 2 (ascii ''attestation bancaire'') [(ascii ''confidentiality'', JStr (ascii ''restricted''))],
         acte_with 3 (ascii ''attestation bancaire'') [(ascii ''deleted'', JBool False),
                                                     (ascii ''confidentiality'', JStr (ascii ''public''))]]) =
     Inr [acte_with 3 (ascii ''attestation bancaire'') [(ascii ''deleted'', JBool False),
                                                     (ascii ''confidentiality'', JStr (ascii ''public''))]]"
  by (simp add: attachments_def acte_with_def dict_get_def dict_get_default_def type_match_def
      any_allowed_def allowed_types_def normalize_str_def latin_decomp_def ascii_def ascii_lower_def)

theorem filter_actes_excludes_witness:
  "keep_acte (map ascii_lower) latin_decomp
     (acte_with 1 (ascii ''attestation bancaire'') [(ascii ''deleted'', JBool True)]) = Inr False \<and>
   keep_acte (map ascii_lower) latin_decomp
     (acte_with 2 (ascii ''attestation bancaire'') [(ascii ''confidentiality'', JStr (ascii ''restricted''))]) =
     Inr False \<and>
   (\<exists>a. acte_with 3 (ascii ''attestation bancaire'')
          [(ascii ''deleted'', JBool False), (ascii ''confidentiality'', JStr (ascii ''public''))] = JObj a \<and>
        dict_get a (ascii ''deleted'') \<noteq> JBool True \<and>
        (\<forall>conf. dict_get a (ascii ''confidentiality'') = JStr conf \<longrightarrow> map ascii_lower conf = ascii ''public''))"
proof -
  let ?d1 = "[(ascii ''id'', JInt 1),
      (ascii ''typeRdd'', JArr [JObj [(ascii ''typeActe'', JStr (ascii ''attestation bancaire''))]])] @
      [(ascii ''deleted'', JBool True)]"
  let ?d2 = "[(ascii ''id'', JInt 2),
      (ascii ''typeRdd'', JArr [JObj [(ascii ''typeActe'', JStr (ascii ''attestation bancaire''))]])] @
      [(ascii ''confidentiality'', JStr (ascii ''restricted''))]"
  let ?a3 = "acte_with 3 (ascii ''attestation bancaire'')
      [(ascii ''deleted'', JBool False), (ascii ''confidentiality'', JStr (ascii ''public''))]"
  have h1: "dict_get ?d1 (ascii ''deleted'') = JBool True"
    by (simp add: dict_get_def ascii_def)
  have h2: "dict_get ?d2 (ascii ''confidentiality'') = JStr (ascii ''restricted'') \<and>
      map ascii_lower (ascii ''restricted'') \<noteq> ascii ''public''"
    by (simp add: dict_get_def ascii_def ascii_lower_def)
  have h3: "?a3 \<in> set [?a3]" by simp
  have k1: "keep_acte (map ascii_lower) latin_decomp (JObj ?d1) = Inr False"
    using filter_actes_excludes [of "map ascii_lower" latin_decomp _ _ _ ?d1] h1 by blast
  have k2: "keep_acte (map ascii_lower) latin_decomp (JObj ?d2) = Inr False"
    using filter_actes_excludes [of "map ascii_lower" latin_decomp _ _ _ ?d2 "ascii ''restricted''"] h2
    by blast
  have k3: "\<exists>a. ?a3 = JObj a \<and> dict_get a (ascii ''deleted'') \<noteq> JBool True \<and>
      (\<forall>conf. dict_get a (ascii ''confidentiality'') = JStr conf \<longrightarrow> map ascii_lower conf = ascii ''public'')"
    using filter_actes_excludes [of "map ascii_lower" latin_decomp _ "[?a3]" ?a3] example_exclusions h3
    by blast
  from k1 k2 k3 show ?thesis
    by (simp only: acte_with_def)
qed

text \<open>
  The comparison is made on the lower-cased field: an acte marked \<open>Public\<close>, a string that
  is not equal to \<open>public\<close>, is kept when its type matches.
\<close>

theorem filter_actes_confidentiality_counterexample:
  "filter_actes (map ascii_lower) latin_decomp
     (attachments
        [acte_with 1 (ascii ''attestation bancaire'') [(ascii ''confidentiality'', JStr (ascii ''Public''))]]) =
     Inr [acte_with 1 (ascii ''attestation bancaire'') [(ascii ''confidentiality'', JStr (ascii ''Public''))]] \<and>
   ascii ''Public'' \<noteq> ascii ''public''"
  by (simp add: attachments_def acte_with_def dict_get_def dict_get_default_def type_match_def
      any_allowed_def allowed_types_def normalize_str_def latin_decomp_def ascii_def ascii_lower_def)

text \<open>The filter of main\_pdf.py has neither test: it keeps a deleted acte whose type matches.\<close>

lemma filter_actes_v1_keeps_deleted:
  "filter_actes_v1 latin_decomp
     (attachments [acte_with 1 (ascii ''attestation bancaire'') [(ascii ''deleted'', JBool True)]]) =
     Inr [acte_with 1 (ascii ''attestation bancaire'') [(ascii ''deleted'', JBool True)]]"
  by (simp add: attachments_def acte_with_def dict_get_def dict_get_default_def type_match_def
      any_allowed_def allowed_types_def normalize_str_def latin_decomp_def ascii_def ascii_lower_def)

subsection \<open>Normalisation\<close>



lemma ascii_lower_not_upper: "\<not> (65 \<le> ascii_lower c \<and> ascii_lower c \<le> 90)"
  by (simp add: ascii_lower_def)












section \<open>main\_pdf\_2.py: the rate limiter\<close>














section \<open>main\_pdf\_2.py: the client\<close>

text \<open>
  What one call of \<open>requests.get\<close> or \<open>requests.post\<close> gives: a response with its status
  code, its body decoded as JSON when it is JSON, and its raw content; or one of the
  exceptions of \<open>requests\<close>, of which the scripts tell \<open>ConnectionError\<close> from the rest.
\<close>

datatype response =
    Resp nat "json option" "nat list"
  | ConnectionError
  | RequestError

text \<open>
  The calls the script issues, with the bearer token they carry.  A token is a string or,
  after a failed login, \<open>None\<close>.
\<close>

type_synonym token = "pystr option"

datatype call =
    PostLogin
  | GetAttachments pystr token
  | GetDownload json token

text \<open>
  The pauses: a wait on one of the two rate limiters (which may last no time), a backoff
  sleep of \<open>wait + random.uniform(lo, hi)\<close> seconds, the pause after a saved file, and
  the pause between two SIRENs.
\<close>

datatype sleep =
    JsonLimiter
  | DocsLimiter
  | Backoff nat rat rat
  | AfterSave
  | BetweenSirens

text \<open>
  The state a run acts on: the calls issued and the pauses made so far, in order; the
  token file (its content as \<open>load_token\<close> reads it, or \<open>None\<close> when there is no file); the
  files written, as SIREN, acte id and content; and the PDF files that were there before
  the run, as SIREN and acte id.
\<close>

record world =
  calls :: "call list"
  sleeps :: "sleep list"
  token_file :: "pystr option"
  saves :: "(pystr \<times> json \<times> nat list) list"
  disk :: "(pystr \<times> json) list"




definition load_token :: "world \<Rightarrow> token" where
  "load_token w = token_file w"







subsection \<open>fetch\_attachments\<close>





subsection \<open>download\_acte\<close>






definition logins :: "world \<Rightarrow> nat" where
  "logins w = length (filter (\<lambda>c. c = PostLogin) (calls w))"



definition token_reply :: "string \<Rightarrow> response" where
  "token_reply t = Resp 200 (Some (JObj [(ascii ''token'', JStr (ascii t))])) []"


subsection \<open>Transient failures\<close>























end
